theory Spec2Isabelle
  imports Complex_Main
begin

section \<open>Spatial interaction analysis: a model of \<open>scimap/tools/spatial_interaction.py\<close>\<close>

text \<open>
  The theory embeds the per-image function \<open>spatial_interaction_internal\<close> and its two
  nested trial functions \<open>permutation_pval\<close> and \<open>permutation_pval_norm\<close>.
  The numeric columns of the source are IEEE doubles held in pandas objects. They are
  modelled by the type \<open>fl\<close>: a real number, one of the two infinities, or
  not-a-number. Division by zero, the arithmetic of infinities and the NaN rules of
  comparisons are written out; rounding and the sign of zero are not modelled.
  The libraries the source calls (numpy's generator, the ball tree, the Delaunay
  triangulation, the normal survival function) are parameters of the model.
\<close>

subsection \<open>Errors\<close>

datatype py_error = UnboundLocalError | IndexError | KeyError | ValueError | LibraryError

subsection \<open>Floating-point values with NaN and infinities\<close>

datatype fl = Fin real | PInf | NInf | NaN

fun fl_neg :: "fl \<Rightarrow> fl" where
  "fl_neg (Fin a) = Fin (- a)"
| "fl_neg PInf = NInf"
| "fl_neg NInf = PInf"
| "fl_neg NaN = NaN"

fun fl_add :: "fl \<Rightarrow> fl \<Rightarrow> fl" where
  "fl_add NaN _ = NaN"
| "fl_add _ NaN = NaN"
| "fl_add (Fin a) (Fin b) = Fin (a + b)"
| "fl_add (Fin a) PInf = PInf"
| "fl_add (Fin a) NInf = NInf"
| "fl_add PInf (Fin b) = PInf"
| "fl_add NInf (Fin b) = NInf"
| "fl_add PInf PInf = PInf"
| "fl_add NInf NInf = NInf"
| "fl_add PInf NInf = NaN"
| "fl_add NInf PInf = NaN"

definition fl_sub :: "fl \<Rightarrow> fl \<Rightarrow> fl" where
  "fl_sub a b = fl_add a (fl_neg b)"

text \<open>The sign of a value that is not NaN: \<open>-1\<close>, \<open>0\<close> or \<open>1\<close>.\<close>

fun fl_sign :: "fl \<Rightarrow> int" where
  "fl_sign (Fin a) = (if a < 0 then - 1 else if a = 0 then 0 else 1)"
| "fl_sign PInf = 1"
| "fl_sign NInf = - 1"
| "fl_sign NaN = 0"

definition signed_inf :: "int \<Rightarrow> fl" where
  "signed_inf s = (if s = 0 then NaN else if 0 < s then PInf else NInf)"

fun fl_mul :: "fl \<Rightarrow> fl \<Rightarrow> fl" where
  "fl_mul NaN _ = NaN"
| "fl_mul _ NaN = NaN"
| "fl_mul (Fin a) (Fin b) = Fin (a * b)"
| "fl_mul a b = signed_inf (fl_sign a * fl_sign b)"

text \<open>
  Division as numpy and pandas do it on doubles: no exception, \<open>0/0\<close> is NaN and
  \<open>x/0\<close> is an infinity of the sign of \<open>x\<close>.
\<close>

fun fl_div :: "fl \<Rightarrow> fl \<Rightarrow> fl" where
  "fl_div NaN _ = NaN"
| "fl_div _ NaN = NaN"
| "fl_div (Fin a) (Fin b) = (if b = 0 then signed_inf (fl_sign (Fin a)) else Fin (a / b))"
| "fl_div (Fin a) PInf = Fin 0"
| "fl_div (Fin a) NInf = Fin 0"
| "fl_div PInf (Fin b) = (if b < 0 then NInf else PInf)"
| "fl_div NInf (Fin b) = (if b < 0 then PInf else NInf)"
| "fl_div _ _ = NaN"

fun fl_abs :: "fl \<Rightarrow> fl" where
  "fl_abs (Fin a) = Fin \<bar>a\<bar>"
| "fl_abs PInf = PInf"
| "fl_abs NInf = PInf"
| "fl_abs NaN = NaN"

fun fl_sqrt :: "fl \<Rightarrow> fl" where
  "fl_sqrt (Fin a) = (if a < 0 then NaN else Fin (sqrt a))"
| "fl_sqrt PInf = PInf"
| "fl_sqrt NInf = NaN"
| "fl_sqrt NaN = NaN"

text \<open>Comparison \<open>a >= b\<close>: false as soon as one side is NaN.\<close>

fun fl_ge :: "fl \<Rightarrow> fl \<Rightarrow> bool" where
  "fl_ge NaN _ = False"
| "fl_ge _ NaN = False"
| "fl_ge (Fin a) (Fin b) = (b \<le> a)"
| "fl_ge PInf _ = True"
| "fl_ge _ NInf = True"
| "fl_ge _ _ = False"

definition fl_lt :: "fl \<Rightarrow> fl \<Rightarrow> bool" where
  "fl_lt a b = (a \<noteq> NaN \<and> b \<noteq> NaN \<and> \<not> fl_ge a b)"

definition isnan :: "fl \<Rightarrow> bool" where
  "isnan a = (a = NaN)"

definition fillna :: "fl \<Rightarrow> fl \<Rightarrow> fl" where
  "fillna d a = (if isnan a then d else a)"

subsection \<open>Row statistics of pandas (\<open>skipna=True\<close>)\<close>

definition dropna :: "fl list \<Rightarrow> fl list" where
  "dropna xs = filter (\<lambda>x. \<not> isnan x) xs"

definition row_min :: "fl list \<Rightarrow> fl" where
  "row_min xs = (case dropna xs of [] \<Rightarrow> NaN
                 | y # ys \<Rightarrow> foldl (\<lambda>a b. if fl_ge b a then a else b) y ys)"

definition row_max :: "fl list \<Rightarrow> fl" where
  "row_max xs = (case dropna xs of [] \<Rightarrow> NaN
                 | y # ys \<Rightarrow> foldl (\<lambda>a b. if fl_ge a b then a else b) y ys)"

definition fl_sum :: "fl list \<Rightarrow> fl" where
  "fl_sum xs = foldl fl_add (Fin 0) xs"

definition row_mean :: "fl list \<Rightarrow> fl" where
  "row_mean xs = (case dropna xs of [] \<Rightarrow> NaN
                  | y # ys \<Rightarrow> fl_div (fl_sum (y # ys)) (Fin (real (length (y # ys)))))"

text \<open>The sample standard deviation (\<open>ddof=1\<close>): NaN for fewer than two values.\<close>

definition row_std :: "fl list \<Rightarrow> fl" where
  "row_std xs =
     (let ys = dropna xs; m = row_mean xs in
      if length ys < 2 then NaN
      else fl_sqrt (fl_div (fl_sum (map (\<lambda>y. fl_mul (fl_sub y m) (fl_sub y m)) ys))
                           (Fin (real (length ys - 1)))))"

subsection \<open>Min--max scaling (lines 337--349)\<close>

text \<open>The transform \<open>2 * (x - row_min) / (row_max - row_min) - 1\<close>.\<close>

definition scale_value :: "fl \<Rightarrow> fl \<Rightarrow> fl \<Rightarrow> fl" where
  "scale_value x mn mx = fl_sub (fl_div (fl_mul (Fin 2) (fl_sub x mn)) (fl_sub mx mn)) (Fin 1)"

definition scale_row :: "fl list \<Rightarrow> fl list" where
  "scale_row row = map (\<lambda>x. scale_value x (row_min row) (row_max row)) row"

text \<open>
  The loop that scales the observed vector rebinds the name \<open>n_freq\<close> to the object
  \<open>n_freq_scaled\<close> inside its body, so from the second iteration on it reads the very
  object it writes. The model keeps the two pandas Series in a store and the two names
  as references into it.
\<close>

record scaling_state =
  heap :: "nat \<Rightarrow> fl list"
  n_freq_ref :: nat
  n_freq_scaled_ref :: nat

fun scaling_loop :: "fl list list \<Rightarrow> nat list \<Rightarrow> scaling_state \<Rightarrow> py_error + scaling_state" where
  "scaling_loop perm [] s = Inr s"
| "scaling_loop perm (i # rest) s =
     (if i < length perm \<and> i < length (heap s (n_freq_ref s))
         \<and> i < length (heap s (n_freq_scaled_ref s))
      then
        (let rmin = row_min (perm ! i);
             rmax = row_max (perm ! i);
             v = scale_value (heap s (n_freq_ref s) ! i) rmin rmax;
             s1 = s\<lparr>heap := (heap s)(n_freq_scaled_ref s := (heap s (n_freq_scaled_ref s))[i := v])\<rparr>;
             s2 = s1\<lparr>n_freq_ref := n_freq_scaled_ref s1\<rparr>
         in scaling_loop perm rest s2)
      else Inl IndexError)"

text \<open>
  \<open>n_freq_scaled = n_freq.copy()\<close> allocates a second Series (address 1) with the
  contents of the first (address 0). The function returns the contents of the object
  the name \<open>n_freq\<close> refers to after the loop.
\<close>

definition scale_n_freq :: "fl list list \<Rightarrow> fl list \<Rightarrow> py_error + fl list" where
  "scale_n_freq perm n_freq =
     (let s0 = \<lparr>heap = (\<lambda>a. [])(0 := n_freq), n_freq_ref = 0, n_freq_scaled_ref = 0\<rparr>;
          s1 = s0\<lparr>heap := (heap s0)(1 := heap s0 (n_freq_ref s0)), n_freq_scaled_ref := 1\<rparr>
      in case scaling_loop perm [0..<length (heap s1 (n_freq_scaled_ref s1))] s1 of
           Inl e \<Rightarrow> Inl e
         | Inr s \<Rightarrow> Inr (heap s (n_freq_ref s)))"

text \<open>The spec's formula for the scaled observed value of pair \<open>i\<close>.\<close>

definition scaled_entry :: "fl list list \<Rightarrow> fl list \<Rightarrow> nat \<Rightarrow> fl" where
  "scaled_entry perm n_freq i =
     scale_value (n_freq ! i) (row_min (perm ! i)) (row_max (perm ! i))"

subsection \<open>The interaction table and pandas frames\<close>

text \<open>
  One row of the table \<open>n\<close>: the cell (the frame's index), its own phenotype and the
  phenotype of one neighbour. The own-phenotype column is a pandas categorical, which
  is what \<open>observed=False\<close> addresses: its categories \<open>cats\<close> are given with the
  image and every category is a row of every grouped frame. The neighbour column is
  produced by \<open>Series.map\<close> and by \<open>np.random.permutation\<close>, so it is an object
  column: only the values that occur become columns, in sorted order.
\<close>

record 'p interaction =
  index :: nat
  phenotype :: 'p
  neighbour_phenotype :: 'p

record 'p frame =
  frame_index :: "'p list"
  frame_columns :: "'p list"
  frame_values :: "fl list list"

definition pair_count :: "'p interaction list \<Rightarrow> 'p \<Rightarrow> 'p \<Rightarrow> nat" where
  "pair_count data i j =
     length (filter (\<lambda>r. phenotype r = i \<and> neighbour_phenotype r = j) data)"

text \<open>\<open>data.groupby(['phenotype','neighbour_phenotype'], observed=False).size().unstack()\<close>\<close>

definition groupby_size_unstack :: "('p::linorder) list \<Rightarrow> 'p interaction list \<Rightarrow> 'p frame" where
  "groupby_size_unstack cats data =
     (let cols = sort (remdups (map neighbour_phenotype data)) in
      \<lparr>frame_index = cats, frame_columns = cols,
       frame_values = map (\<lambda>i. map (\<lambda>j. Fin (real (pair_count data i j))) cols) cats\<rparr>)"

text \<open>\<open>np.setdiff1d(a, b)\<close>: the sorted distinct values of \<open>a\<close> that are not in \<open>b\<close>.\<close>

definition setdiff1d :: "('p::linorder) list \<Rightarrow> 'p list \<Rightarrow> 'p list" where
  "setdiff1d a b = sort (remdups (filter (\<lambda>x. x \<notin> set b) a))"

text \<open>\<open>k.assign(**dict.fromkeys(cs, 0))\<close> for labels \<open>cs\<close> that are not columns yet.\<close>

definition assign_zero_columns :: "'p frame \<Rightarrow> 'p list \<Rightarrow> 'p frame" where
  "assign_zero_columns k cs =
     k\<lparr>frame_columns := frame_columns k @ cs,
       frame_values := map (\<lambda>row. row @ replicate (length cs) (Fin 0)) (frame_values k)\<rparr>"

text \<open>\<open>k.div(total, axis=0)\<close>, the totals given in the order of the frame's index.\<close>

definition div_rows :: "'p frame \<Rightarrow> fl list \<Rightarrow> 'p frame" where
  "div_rows k totals =
     k\<lparr>frame_values := map (\<lambda>(row, t). map (\<lambda>v. fl_div v t) row) (zip (frame_values k) totals)\<rparr>"

text \<open>Element-wise \<open>a / b\<close> of two frames with the same labels.\<close>

definition div_frames :: "'p frame \<Rightarrow> 'p frame \<Rightarrow> 'p frame" where
  "div_frames a b =
     a\<lparr>frame_values := map (\<lambda>(ra, rb). map (\<lambda>(x, y). fl_div x y) (zip ra rb))
                             (zip (frame_values a) (frame_values b))\<rparr>"

text \<open>\<open>frame.fillna(0).stack()\<close>: the values, row by row, and their pair labels.\<close>

definition fillna_stack_values :: "'p frame \<Rightarrow> fl list" where
  "fillna_stack_values k = concat (map (map (fillna (Fin 0))) (frame_values k))"

definition stack_index :: "'p frame \<Rightarrow> ('p \<times> 'p) list" where
  "stack_index k = concat (map (\<lambda>i. map (\<lambda>j. (i, j)) (frame_columns k)) (frame_index k))"

text \<open>\<open>drop_duplicates()\<close> keeps the first of equal rows.\<close>

definition drop_duplicates :: "'a list \<Rightarrow> 'a list" where
  "drop_duplicates xs = rev (remdups (rev xs))"

text \<open>\<open>data.assign(neighbour_phenotype=col)\<close>\<close>

definition assign_neighbour_phenotype :: "'p interaction list \<Rightarrow> 'p list \<Rightarrow> 'p interaction list" where
  "assign_neighbour_phenotype data col =
     map (\<lambda>(r, p). r\<lparr>neighbour_phenotype := p\<rparr>) (zip data col)"

subsection \<open>The random generator of numpy\<close>

text \<open>
  numpy's global generator is a parameter: the state that \<open>np.random.seed(s)\<close>
  installs, and the two draws the source makes, each from a state. Every function
  below that draws takes the state the process is in when it starts.
\<close>

record ('g, 'p) np_random =
  seed_state :: "nat \<Rightarrow> 'g"
  rand_randint :: "'g \<Rightarrow> nat \<Rightarrow> nat list \<times> 'g"
  rand_permutation :: "'g \<Rightarrow> 'p list \<Rightarrow> 'p list \<times> 'g"

definition np_random_seed :: "('g, 'p) np_random \<Rightarrow> nat \<Rightarrow> 'g \<Rightarrow> 'g" where
  "np_random_seed rng s g = seed_state rng s"

text \<open>The shuffled table of a trial: lines 247--248 and 262--264.\<close>

definition shuffled :: "('g, 'p) np_random \<Rightarrow> 'p interaction list \<Rightarrow> nat \<Rightarrow> 'g \<Rightarrow> 'p interaction list" where
  "shuffled rng data seed g =
     (let g1 = np_random_seed rng seed g in
      assign_neighbour_phenotype data
        (fst (rand_permutation rng g1 (map neighbour_phenotype data))))"

subsection \<open>Permutation trials (lines 244--276)\<close>

text \<open>
  \<open>data.reset_index().drop_duplicates(subset=['index','phenotype']).groupby('phenotype').size()\<close>
  at one label: the number of distinct cells of that phenotype among the rows of the table.
\<close>

definition table_cell_count :: "'p interaction list \<Rightarrow> 'p \<Rightarrow> nat" where
  "table_cell_count data i =
     length (filter (\<lambda>c. snd c = i) (drop_duplicates (map (\<lambda>r. (index r, phenotype r)) data)))"

definition permutation_pval ::
  "('g, 'p::linorder) np_random \<Rightarrow> 'p list \<Rightarrow> 'p interaction list \<Rightarrow> nat \<Rightarrow> 'g \<Rightarrow> fl list" where
  "permutation_pval rng cats data seed g =
     (let data1 = shuffled rng data seed g;
          k = groupby_size_unstack cats data1;
          columns_to_add = setdiff1d (frame_index k) (frame_columns k);
          k1 = assign_zero_columns k columns_to_add;
          total_cell_count = map (\<lambda>i. Fin (real (table_cell_count data1 i))) (frame_index k1);
          data_freq = div_rows k1 total_cell_count
      in fillna_stack_values data_freq)"

text \<open>The denominator frame of a conditional trial (line 273).\<close>

definition trial_normalization_factor ::
  "('g, 'p::linorder) np_random \<Rightarrow> 'p list \<Rightarrow> 'p interaction list \<Rightarrow> nat \<Rightarrow> 'g \<Rightarrow> 'p frame" where
  "trial_normalization_factor rng cats data seed g =
     (let data1 = shuffled rng data seed g;
          data2 = drop_duplicates data1
      in groupby_size_unstack cats data2)"

definition permutation_pval_norm ::
  "('g, 'p::linorder) np_random \<Rightarrow> 'p list \<Rightarrow> 'p interaction list \<Rightarrow> nat \<Rightarrow> 'g \<Rightarrow> fl list" where
  "permutation_pval_norm rng cats data seed g =
     (let data1 = shuffled rng data seed g;
          data_freq = groupby_size_unstack cats data1;
          normalization_factor = trial_normalization_factor rng cats data seed g;
          data_freq1 = div_frames data_freq normalization_factor
      in fillna_stack_values data_freq1)"

subsection \<open>Observed frequencies (lines 296--334)\<close>

text \<open>\<open>data['phenotype'].value_counts()\<close> at one label, over the cells of the image.\<close>

definition value_counts :: "'p list \<Rightarrow> 'p \<Rightarrow> nat" where
  "value_counts phenotypes i = length (filter (\<lambda>p. p = i) phenotypes)"

definition observed_total_frame :: "('p::linorder) list \<Rightarrow> 'p list \<Rightarrow> 'p interaction list \<Rightarrow> 'p frame" where
  "observed_total_frame cats phenotypes n =
     (let k = groupby_size_unstack cats n;
          columns_to_add = setdiff1d (frame_index k) (frame_columns k);
          k1 = assign_zero_columns k columns_to_add;
          total_cell_count = map (\<lambda>i. Fin (real (value_counts phenotypes i))) (frame_index k1)
      in div_rows k1 total_cell_count)"

definition observed_conditional_frame :: "('p::linorder) list \<Rightarrow> int \<Rightarrow> 'p interaction list \<Rightarrow> 'p frame" where
  "observed_conditional_frame cats cond_counts_threshold n =
     (let data_freq = groupby_size_unstack cats n;
          data = drop_duplicates n;
          normalization_factor = groupby_size_unstack cats data;
          mask = map (map (\<lambda>v. fl_lt v (Fin (real_of_int cond_counts_threshold))))
                     (frame_values normalization_factor);
          data_freq1 = div_frames data_freq normalization_factor
      in data_freq1\<lparr>frame_values :=
           map (\<lambda>(row, mrow). map (\<lambda>(v, m). if m then NaN else v) (zip row mrow))
               (zip (frame_values data_freq1) mask)\<rparr>)"

subsection \<open>Neighbourhoods (lines 148--212)\<close>

text \<open>
  The spatial libraries are parameters: \<open>BallTree.query\<close> with \<open>k\<close>,
  \<open>BallTree.query_radius\<close> with \<open>r\<close>, and the simplices of
  \<open>scipy.spatial.Delaunay\<close>, each a list of vertex indices. Each may raise.
\<close>

record 'c spatial_lib =
  ball_tree_query :: "'c \<Rightarrow> nat \<Rightarrow> py_error + nat list list"
  ball_tree_query_radius :: "'c \<Rightarrow> real \<Rightarrow> py_error + nat list list"
  delaunay_simplices :: "'c \<Rightarrow> py_error + nat list list"

text \<open>
  \<open>pd.DataFrame(rows, index=data.index)\<close>: short rows are filled with missing values
  up to the widest row; a row count other than the number of cells raises.
\<close>

definition frame_width :: "'a list list \<Rightarrow> nat" where
  "frame_width rows = foldr max (map length rows) 0"

definition data_frame :: "nat \<Rightarrow> 'a list list \<Rightarrow> py_error + 'a option list list" where
  "data_frame ncells rows =
     (if length rows \<noteq> ncells then Inl ValueError
      else Inr (map (\<lambda>r. map Some r @ replicate (frame_width rows - length r) None) rows))"

text \<open>The knn branch: \<open>neighbours.drop(0, axis=1)\<close> removes the first column.\<close>

definition knn_neighbours :: "nat \<Rightarrow> nat list list \<Rightarrow> py_error + int option list list" where
  "knn_neighbours ncells ind =
     (case data_frame ncells (map (map int) ind) of
        Inl e \<Rightarrow> Inl e
      | Inr neighbours \<Rightarrow>
          if frame_width ind = 0 then Inl KeyError else Inr (map tl neighbours))"

text \<open>The radius branch: \<open>np.delete(ind[i], np.argwhere(ind[i] == i))\<close> for every \<open>i\<close>.\<close>

definition remove_self :: "nat list list \<Rightarrow> nat list list" where
  "remove_self ind = map (\<lambda>(i, r). filter (\<lambda>j. j \<noteq> i) r) (zip [0..<length ind] ind)"

definition radius_neighbours :: "nat \<Rightarrow> nat list list \<Rightarrow> py_error + int option list list" where
  "radius_neighbours ncells ind = data_frame ncells (map (map int) (remove_self ind))"

text \<open>
  The Delaunay branch. \<open>neighbours_dict\<close> has the keys \<open>0 .. len(points) - 1\<close>, so it is
  a list; each of its sets is a list without repetition (the order in which Python
  lists a set is not modelled: a new element goes last).
\<close>

definition simplex_pairs :: "nat \<Rightarrow> (nat \<times> nat) list" where
  "simplex_pairs m = concat (map (\<lambda>i. map (\<lambda>j. (i, j)) [i + 1..<m]) [0..<m])"

definition set_add :: "nat \<Rightarrow> nat list \<Rightarrow> nat list" where
  "set_add x xs = (if x \<in> set xs then xs else xs @ [x])"

definition add_neighbour :: "nat list list \<Rightarrow> nat \<Rightarrow> nat \<Rightarrow> py_error + nat list list" where
  "add_neighbour d a b = (if a < length d then Inr (d[a := set_add b (d ! a)]) else Inl KeyError)"

fun add_simplex_pairs :: "nat list \<Rightarrow> (nat \<times> nat) list \<Rightarrow> nat list list \<Rightarrow> py_error + nat list list" where
  "add_simplex_pairs simplex [] d = Inr d"
| "add_simplex_pairs simplex ((i, j) # ps) d =
     (case add_neighbour d (simplex ! i) (simplex ! j) of
        Inl e \<Rightarrow> Inl e
      | Inr d1 \<Rightarrow>
          (case add_neighbour d1 (simplex ! j) (simplex ! i) of
             Inl e \<Rightarrow> Inl e
           | Inr d2 \<Rightarrow> add_simplex_pairs simplex ps d2))"

fun add_simplices :: "nat list list \<Rightarrow> nat list list \<Rightarrow> py_error + nat list list" where
  "add_simplices [] d = Inr d"
| "add_simplices (simplex # rest) d =
     (case add_simplex_pairs simplex (simplex_pairs (length simplex)) d of
        Inl e \<Rightarrow> Inl e
      | Inr d1 \<Rightarrow> add_simplices rest d1)"

definition neighbours_dict :: "nat \<Rightarrow> nat list list \<Rightarrow> py_error + nat list list" where
  "neighbours_dict npoints simplices = add_simplices simplices (replicate npoints [])"

text \<open>
  Lines 199--212: the lists are padded with \<open>-1\<close> to the longest, put in a frame, and
  \<open>-1\<close> is replaced by the missing value. \<open>max\<close> of no lists raises.
\<close>

definition delaunay_neighbours ::
  "nat \<Rightarrow> nat list list \<Rightarrow> py_error + (int list list \<times> int option list list)" where
  "delaunay_neighbours npoints simplices =
     (case neighbours_dict npoints simplices of
        Inl e \<Rightarrow> Inl e
      | Inr neighbours_list \<Rightarrow>
          if neighbours_list = [] then Inl ValueError
          else
            (let max_neigh_len = frame_width neighbours_list;
                 ind = map (\<lambda>neigh. map int neigh @ replicate (max_neigh_len - length neigh) (- 1))
                           neighbours_list
             in case data_frame npoints ind of
                  Inl e \<Rightarrow> Inl e
                | Inr neighbours \<Rightarrow>
                    Inr (ind, map (map (\<lambda>v. if v = Some (- 1) then None else v)) neighbours)))"

subsection \<open>Phenotype mapping (lines 215--231)\<close>

text \<open>\<open>dict(zip(range(len(ind)), data['phenotype']))\<close> looked up by \<open>Series.map\<close>.\<close>

definition phenomap :: "nat \<Rightarrow> 'p list \<Rightarrow> int \<Rightarrow> 'p option" where
  "phenomap len_ind phenotypes j =
     (if 0 \<le> j \<and> nat j < min len_ind (length phenotypes) then Some (phenotypes ! nat j) else None)"

definition map_phenotypes :: "nat \<Rightarrow> 'p list \<Rightarrow> int option list list \<Rightarrow> 'p option list list" where
  "map_phenotypes len_ind phenotypes neighbours =
     map (map (\<lambda>v. case v of None \<Rightarrow> None | Some j \<Rightarrow> phenomap len_ind phenotypes j)) neighbours"

text \<open>\<open>neighbours.dropna(how='all')\<close>, each row kept with its index label.\<close>

definition dropna_all :: "'a option list list \<Rightarrow> (nat \<times> 'a option list) list" where
  "dropna_all rows = filter (\<lambda>(c, row). list_ex (\<lambda>v. v \<noteq> None) row) (zip [0..<length rows] rows)"

definition present :: "'a option list \<Rightarrow> 'a list" where
  "present row = concat (map (\<lambda>v. case v of None \<Rightarrow> [] | Some x \<Rightarrow> [x]) row)"

text \<open>\<open>neighbours.stack()\<close> merged with \<open>data['phenotype']\<close> on the index.\<close>

definition interaction_table :: "'p list \<Rightarrow> (nat \<times> 'p option list) list \<Rightarrow> 'p interaction list" where
  "interaction_table phenotypes neighbours =
     concat (map (\<lambda>(c, row).
                    if c < length phenotypes
                    then map (\<lambda>p. \<lparr>index = c, phenotype = phenotypes ! c, neighbour_phenotype = p\<rparr>)
                             (present row)
                    else [])
                 neighbours)"

subsection \<open>P-values, z-scores and direction (lines 354--367)\<close>

text \<open>
  \<open>np.sum(perm >= n_freq.values[:, None], axis=1) / (permutation + 1)\<close>. The comparison
  pairs row \<open>i\<close> of \<open>perm\<close> with entry \<open>i\<close> of \<open>n_freq\<close>; shapes that disagree raise.
\<close>

definition abs_p_values :: "nat \<Rightarrow> fl list list \<Rightarrow> fl list \<Rightarrow> py_error + fl list" where
  "abs_p_values permutation perm n_freq =
     (if length perm \<noteq> length n_freq then Inl ValueError
      else
        (let p_values = map (\<lambda>(row, x). fl_div (Fin (real (length (filter (\<lambda>v. fl_ge v x) row))))
                                           (Fin (real (permutation + 1))))
                            (zip perm n_freq)
         in Inr (dropna p_values)))"

text \<open>
  The normal survival function on the extended values, from a function \<open>sf\<close> on the
  reals (a parameter, for \<open>scipy.stats.norm.sf\<close>).
\<close>

fun norm_sf :: "(real \<Rightarrow> real) \<Rightarrow> fl \<Rightarrow> fl" where
  "norm_sf sf (Fin x) = Fin (sf x)"
| "norm_sf sf PInf = Fin 0"
| "norm_sf sf NInf = Fin 1"
| "norm_sf sf NaN = NaN"

definition z_scores_of :: "fl list \<Rightarrow> fl list \<Rightarrow> fl list \<Rightarrow> py_error + fl list" where
  "z_scores_of n_freq mean std =
     (if length n_freq \<noteq> length mean \<or> length mean \<noteq> length std then Inl ValueError
      else
        (let z_scores = map (\<lambda>(x, m, s). fl_div (fl_sub x m) s) (zip n_freq (zip mean std))
         in Inr (map (fillna (Fin 0)) z_scores)))"

definition zscore_p_values :: "(real \<Rightarrow> real) \<Rightarrow> fl list \<Rightarrow> fl list" where
  "zscore_p_values sf z_scores =
     dropna (map (\<lambda>z. fl_mul (norm_sf sf (fl_abs z)) (Fin 2)) z_scores)"

definition direction_of :: "fl list \<Rightarrow> fl list \<Rightarrow> py_error + fl list" where
  "direction_of n_freq mean =
     (if length n_freq \<noteq> length mean then Inl ValueError
      else Inr (map (\<lambda>(x, m). fillna (Fin 1) (fl_div (fl_sub x m) (fl_abs (fl_sub x m))))
                    (zip n_freq mean)))"

subsection \<open>The per-image function (lines 122--388)\<close>

text \<open>
  A run yields the work it started, in order, and either an error or a value. Two
  kinds of work are recorded: the construction of the neighbour graph and the
  permutation trials.
\<close>

datatype work = GraphConstruction | PermutationTrials

type_synonym 'a comp = "work list \<times> (py_error + 'a)"

definition ret :: "'a \<Rightarrow> 'a comp" where
  "ret x = ([], Inr x)"

definition raise :: "py_error \<Rightarrow> 'a comp" where
  "raise e = ([], Inl e)"

definition begin_work :: "work \<Rightarrow> unit comp" where
  "begin_work w = ([w], Inr ())"

definition of_result :: "py_error + 'a \<Rightarrow> 'a comp" where
  "of_result r = ([], r)"

definition then_do :: "'a comp \<Rightarrow> ('a \<Rightarrow> 'b comp) \<Rightarrow> 'b comp" where
  "then_do m f =
     (case m of
        (t, Inl e) \<Rightarrow> (t, Inl e)
      | (t, Inr x) \<Rightarrow> (case f x of (t', r) \<Rightarrow> (t @ t', r)))"

text \<open>Reading a local name that no branch has assigned raises.\<close>

definition read_var :: "'a option \<Rightarrow> 'a comp" where
  "read_var v = (case v of None \<Rightarrow> raise UnboundLocalError | Some x \<Rightarrow> ret x)"

record config =
  nb_method :: string
  radius :: real
  knn :: nat
  permutation :: nat
  cond_counts_threshold :: int
  pval_method :: string
  normalization :: string
  scaling :: bool

text \<open>
  One image: its coordinate table, the phenotype of every cell (\<open>data['phenotype']\<close>,
  the cell being the position) and the categories of that column.
\<close>

record ('c, 'p) image =
  coords :: 'c
  phenotypes :: "'p list"
  categories :: "'p list"

text \<open>What the name \<open>neighbours\<close> holds when the function returns.\<close>

datatype 'p outcome =
    AbsTable "(('p \<times> 'p) \<times> fl \<times> fl) list"
  | ZscoreTable "(('p \<times> 'p) \<times> fl \<times> fl \<times> fl) list"
  | NeighbourTable "(nat \<times> 'p option list) list"

text \<open>
  Lines 148--212: three independent \<open>if\<close> statements on \<open>method\<close>. The names \<open>ind\<close>
  and \<open>neighbours\<close> stay unbound when none of them fires.
\<close>

definition select_neighbourhood ::
  "'c spatial_lib \<Rightarrow> config \<Rightarrow> ('c, 'p) image
     \<Rightarrow> (int list list option \<times> int option list list option) comp" where
  "select_neighbourhood lib cfg img =
     then_do
       (if nb_method cfg = ''knn'' then
          then_do (begin_work GraphConstruction) (\<lambda>_.
          then_do (of_result (ball_tree_query lib (coords img) (knn cfg))) (\<lambda>ind.
          then_do (of_result (knn_neighbours (length (phenotypes img)) ind)) (\<lambda>neighbours.
          ret (Some (map (map int) ind), Some neighbours))))
        else ret (None, None))
       (\<lambda>v1.
     then_do
       (if nb_method cfg = ''radius'' then
          then_do (begin_work GraphConstruction) (\<lambda>_.
          then_do (of_result (ball_tree_query_radius lib (coords img) (radius cfg))) (\<lambda>ind.
          then_do (of_result (radius_neighbours (length (phenotypes img)) ind)) (\<lambda>neighbours.
          ret (Some (map (map int) (remove_self ind)), Some neighbours))))
        else ret v1)
       (\<lambda>v2.
       if nb_method cfg = ''delaunay'' then
          then_do (begin_work GraphConstruction) (\<lambda>_.
          then_do (of_result (delaunay_simplices lib (coords img))) (\<lambda>simplices.
          then_do (of_result (delaunay_neighbours (length (phenotypes img)) simplices))
            (\<lambda>(ind, neighbours). ret (Some ind, Some neighbours))))
        else ret v2))"

text \<open>
  Lines 278--284: trial \<open>i\<close> runs \<open>seeds[i]\<close>, in a worker process whose generator is
  in state \<open>w i\<close> when the trial starts. \<open>final_scores\<close> stays unbound for any other
  value of \<open>normalization\<close>.
\<close>

definition run_trials ::
  "('g, 'p::linorder) np_random \<Rightarrow> config \<Rightarrow> 'p list \<Rightarrow> 'p interaction list \<Rightarrow> nat list
     \<Rightarrow> (nat \<Rightarrow> 'g) \<Rightarrow> fl list list option comp" where
  "run_trials rng cfg cats n seeds w =
     then_do
       (if normalization cfg = ''total'' then
          then_do (begin_work PermutationTrials) (\<lambda>_.
          if length seeds < permutation cfg then raise IndexError
          else ret (Some (map (\<lambda>i. permutation_pval rng cats n (seeds ! i) (w i))
                              [0..<permutation cfg])))
        else ret None)
       (\<lambda>final_scores.
       if normalization cfg = ''conditional'' then
          then_do (begin_work PermutationTrials) (\<lambda>_.
          if length seeds < permutation cfg then raise IndexError
          else ret (Some (map (\<lambda>i. permutation_pval_norm rng cats n (seeds ! i) (w i))
                              [0..<permutation cfg])))
        else ret final_scores)"

text \<open>Lines 296--334: the observed frame, unbound for any other \<open>normalization\<close>.\<close>

definition observed_frame ::
  "config \<Rightarrow> ('p::linorder) list \<Rightarrow> 'p list \<Rightarrow> 'p interaction list \<Rightarrow> 'p frame option" where
  "observed_frame cfg cats phens n =
     (let f1 = (if normalization cfg = ''total''
                then Some (observed_total_frame cats phens n) else None)
      in if normalization cfg = ''conditional''
         then Some (observed_conditional_frame cats (cond_counts_threshold cfg) n)
         else f1)"

text \<open>The two result frames (lines 371--385); columns of unequal length raise.\<close>

definition abs_table ::
  "('p \<times> 'p) list \<Rightarrow> fl list \<Rightarrow> fl list \<Rightarrow> fl list \<Rightarrow> py_error + 'p outcome" where
  "abs_table idx n_freq direction p_values =
     (if length n_freq \<noteq> length idx \<or> length direction \<noteq> length idx
         \<or> length p_values \<noteq> length idx
      then Inl ValueError
      else Inr (AbsTable (zip idx (zip (map (\<lambda>(x, d). fl_mul x d) (zip n_freq direction))
                                       p_values))))"

definition zscore_table ::
  "('p \<times> 'p) list \<Rightarrow> fl list \<Rightarrow> fl list \<Rightarrow> fl list \<Rightarrow> py_error + 'p outcome" where
  "zscore_table idx n_freq z_scores p_values =
     (if length n_freq \<noteq> length idx \<or> length z_scores \<noteq> length idx
         \<or> length p_values \<noteq> length idx
      then Inl ValueError
      else Inr (ZscoreTable (zip idx (zip z_scores (zip p_values n_freq)))))"

text \<open>
  Lines 336--388. \<open>perm_scaled\<close> feeds the mean and the standard deviation only; the
  comparison of the \<open>abs\<close> method reads \<open>perm\<close>. When \<open>pval_method\<close> is neither
  \<open>abs\<close> nor \<open>zscore\<close> no branch assigns \<open>neighbours\<close> again and the function returns
  the phenotype-mapped neighbour frame it still holds.
\<close>

definition evaluate_significance ::
  "(real \<Rightarrow> real) \<Rightarrow> config \<Rightarrow> fl list list \<Rightarrow> ('p \<times> 'p) list \<Rightarrow> fl list
     \<Rightarrow> (nat \<times> 'p option list) list \<Rightarrow> 'p outcome comp" where
  "evaluate_significance sf cfg perm idx n_freq0 neighbours0 =
     then_do
       (if scaling cfg then
          (let perm_scaled = map scale_row perm in
           then_do (of_result (scale_n_freq perm n_freq0)) (\<lambda>n_freq.
           ret (map row_mean perm_scaled, map row_std perm_scaled, n_freq)))
        else ret (map row_mean perm, map row_std perm, n_freq0))
       (\<lambda>(mean, std, n_freq).
     then_do
       (if pval_method cfg = ''abs'' then
          then_do (of_result (abs_p_values (permutation cfg) perm n_freq)) (\<lambda>p. ret (Some p))
        else ret None)
       (\<lambda>p_values1.
     then_do
       (if pval_method cfg = ''zscore'' then
          then_do (of_result (z_scores_of n_freq mean std)) (\<lambda>z.
          ret (Some z, Some (zscore_p_values sf z)))
        else ret (None, p_values1))
       (\<lambda>(z_scores, p_values).
     then_do (of_result (direction_of n_freq mean)) (\<lambda>direction.
       if pval_method cfg = ''abs'' then
         then_do (read_var p_values) (\<lambda>p. of_result (abs_table idx n_freq direction p))
       else if pval_method cfg = ''zscore'' then
         then_do (read_var z_scores) (\<lambda>z.
         then_do (read_var p_values) (\<lambda>p. of_result (zscore_table idx n_freq z p)))
       else ret (NeighbourTable neighbours0)))))"

text \<open>
  The whole function. \<open>g\<close> is the state of the generator of the calling process when
  the function starts; \<open>np.random.seed(42)\<close> and the draw of the seeds come after the
  phenotype mapping. \<open>pd.DataFrame(final_scores).T\<close> is the transpose.
\<close>

definition master_seed :: nat where
  "master_seed = 42"

definition trial_seeds :: "('g, 'p) np_random \<Rightarrow> nat \<Rightarrow> 'g \<Rightarrow> nat list" where
  "trial_seeds rng count g = fst (rand_randint rng (np_random_seed rng master_seed g) count)"

definition spatial_interaction_internal ::
  "'c spatial_lib \<Rightarrow> ('g, 'p::linorder) np_random \<Rightarrow> (real \<Rightarrow> real) \<Rightarrow> config
     \<Rightarrow> ('c, 'p) image \<Rightarrow> 'g \<Rightarrow> (nat \<Rightarrow> 'g) \<Rightarrow> 'p outcome comp" where
  "spatial_interaction_internal lib rng sf cfg img g w =
     then_do (select_neighbourhood lib cfg img) (\<lambda>(ind_var, neighbours_var).
     then_do (read_var ind_var) (\<lambda>ind.
     then_do (read_var neighbours_var) (\<lambda>neighbours.
       (let mapped = dropna_all (map_phenotypes (length ind) (phenotypes img) neighbours);
            n = interaction_table (phenotypes img) mapped;
            seeds = trial_seeds rng (permutation cfg) g
        in
     then_do (run_trials rng cfg (categories img) n seeds w) (\<lambda>final_scores_var.
     then_do (read_var final_scores_var) (\<lambda>final_scores.
       (let perm = transpose final_scores in
     then_do (read_var (observed_frame cfg (categories img) (phenotypes img) n)) (\<lambda>n_freq.
       evaluate_significance sf cfg perm (stack_index n_freq) (fillna_stack_values n_freq)
         mapped))))))))"

subsection \<open>Example parameters\<close>

text \<open>
  A generator whose state is a number: \<open>seed\<close> installs its argument, a permutation
  rotates the column by the state, the seeds count up from the state. The identity
  generator leaves every column as it is.
\<close>

definition rotating_rng :: "(nat, 'p) np_random" where
  "rotating_rng =
     \<lparr>seed_state = (\<lambda>s. s),
      rand_randint = (\<lambda>g k. (map (\<lambda>i. g + i) [0..<k], g + k)),
      rand_permutation = (\<lambda>g xs. (rotate g xs, g + 1))\<rparr>"

definition identity_rng :: "(nat, 'p) np_random" where
  "identity_rng =
     \<lparr>seed_state = (\<lambda>s. s),
      rand_randint = (\<lambda>g k. (map (\<lambda>i. g + i) [0..<k], g + k)),
      rand_permutation = (\<lambda>g xs. (xs, g + 1))\<rparr>"

subsection \<open>Auxiliary predicates\<close>

text \<open>No key of the neighbour dictionary is a member of its own set.\<close>

definition no_self :: "nat list list \<Rightarrow> bool" where
  "no_self d = (\<forall>c < length d. c \<notin> set (d ! c))"

subsection \<open>Reference definitions for the claims\<close>

text \<open>
  The denominator of a conditional trial as the spec words it: the deduplicated
  pair-count frame of the unshuffled table.
\<close>

definition claimed_trial_denominator :: "('p::linorder) list \<Rightarrow> 'p interaction list \<Rightarrow> 'p frame" where
  "claimed_trial_denominator cats data = groupby_size_unstack cats (drop_duplicates data)"

text \<open>The ratio of a pair's count to its deduplicated count in one table, 0 when the pair is absent.\<close>

definition conditional_ratio :: "'p interaction list \<Rightarrow> 'p \<Rightarrow> 'p \<Rightarrow> fl" where
  "conditional_ratio s i j =
     (if pair_count (drop_duplicates s) i j = 0 then Fin 0
      else Fin (real (pair_count s i j) / real (pair_count (drop_duplicates s) i j)))"

text \<open>A table of two cells: cell 0 (phenotype 0) twice next to phenotype 1, cell 1 next to phenotype 0.\<close>

definition example_table :: "nat interaction list" where
  "example_table =
     [\<lparr>index = 0, phenotype = 0, neighbour_phenotype = 1\<rparr>,
      \<lparr>index = 0, phenotype = 0, neighbour_phenotype = 1\<rparr>,
      \<lparr>index = 1, phenotype = 1, neighbour_phenotype = 0\<rparr>]"

subsection \<open>Reference values for the scaled absolute p-value\<close>



subsection \<open>Example images\<close>

text \<open>
  Three cells of which the first two are within the radius of each other and the third
  has no neighbour: \<open>query_radius\<close> answers \<open>[[0, 1], [0, 1], [2]]\<close>, and the neighbour frame
  after the removal of self is \<open>[[1], [0], [NaN]]\<close>. The interaction table of the image
  follows lines 217--231 from that frame and the phenotypes of the three cells.
\<close>

definition isolated_cell_neighbours :: "int option list list" where
  "isolated_cell_neighbours = [[Some 1], [Some 0], [None]]"

definition isolated_cell_table :: "nat list \<Rightarrow> nat interaction list" where
  "isolated_cell_table phens =
     interaction_table phens (dropna_all (map_phenotypes 3 phens isolated_cell_neighbours))"

text \<open>
  What \<open>BallTree.query(X, k)\<close> promises for points in the plane: for every point \<open>i\<close> a row
  of \<open>k\<close> distinct indices, ordered by distance from \<open>i\<close>, such that no point outside the
  row is nearer than a point of the row. Points at equal distance may come in any order.
\<close>

definition sq_dist :: "real \<times> real \<Rightarrow> real \<times> real \<Rightarrow> real" where
  "sq_dist p q = (fst p - fst q)\<^sup>2 + (snd p - snd q)\<^sup>2"

definition is_knn_row :: "(real \<times> real) list \<Rightarrow> nat \<Rightarrow> nat \<Rightarrow> nat list \<Rightarrow> bool" where
  "is_knn_row pts k i row =
     (length row = k \<and> distinct row \<and> list_all (\<lambda>j. j < length pts) row
      \<and> sorted (map (\<lambda>j. sq_dist (pts ! i) (pts ! j)) row)
      \<and> list_all (\<lambda>m. m \<in> set row
                       \<or> list_all (\<lambda>j. sq_dist (pts ! i) (pts ! j) \<le> sq_dist (pts ! i) (pts ! m)) row)
                  [0..<length pts])"

definition is_knn_answer :: "(real \<times> real) list \<Rightarrow> nat \<Rightarrow> nat list list \<Rightarrow> bool" where
  "is_knn_answer pts k ind =
     (length ind = length pts
      \<and> list_all (\<lambda>(i, row). is_knn_row pts k i row) (zip [0..<length ind] ind))"

subsection \<open>An example run\<close>

text \<open>
  Two cells of different phenotypes within the radius of each other. The ball tree
  answers the radius query with both cells for either cell, the nearest-neighbour query
  with the cell itself first, and the triangulation of two points fails.
\<close>

definition example_lib :: "unit spatial_lib" where
  "example_lib =
     \<lparr>ball_tree_query = (\<lambda>c k. Inr [[0, 1], [1, 0]]),
      ball_tree_query_radius = (\<lambda>c r. Inr [[0, 1], [0, 1]]),
      delaunay_simplices = (\<lambda>c. Inl LibraryError)\<rparr>"

definition example_image :: "(unit, nat) image" where
  "example_image = \<lparr>coords = (), phenotypes = [0, 1], categories = [0, 1]\<rparr>"

definition example_config :: config where
  "example_config =
     \<lparr>nb_method = ''radius'', radius = 30, knn = 10, permutation = 2,
      cond_counts_threshold = 5, pval_method = ''abs'', normalization = ''total'',
      scaling = False\<rparr>"

text \<open>The interaction table of the example image: each of the two cells has the other as its neighbour.\<close>

definition two_cell_table :: "nat interaction list" where
  "two_cell_table =
     [\<lparr>index = 0, phenotype = 0, neighbour_phenotype = 1\<rparr>,
      \<lparr>index = 1, phenotype = 1, neighbour_phenotype = 0\<rparr>]"

section \<open>Verified properties\<close>

subsection \<open>Scaling of the observed vector\<close>

lemma scaling_loop_inv:
  "length perm = n \<Longrightarrow> length nf = n \<Longrightarrow> k \<le> n \<Longrightarrow>
   n_freq_scaled_ref s = 1 \<Longrightarrow> (n_freq_ref s = 0 \<and> k = 0) \<or> n_freq_ref s = 1 \<Longrightarrow>
   heap s 0 = nf \<Longrightarrow> length (heap s 1) = n \<Longrightarrow>
   (\<forall>j. k \<le> j \<and> j < n \<longrightarrow> heap s 1 ! j = nf ! j) \<Longrightarrow>
   (\<forall>j<k. heap s 1 ! j = scaled_entry perm nf j) \<Longrightarrow>
   \<exists>s'. scaling_loop perm [k..<n] s = Inr s' \<and> heap s' 1 = map (scaled_entry perm nf) [0..<n]
        \<and> heap s' 0 = nf \<and> (n_freq_ref s' = 1 \<or> (k = n \<and> n_freq_ref s' = n_freq_ref s))"
proof (induction "n - k" arbitrary: k s)
  case 0
  then have kn: "k = n" by simp
  have "heap s 1 = map (scaled_entry perm nf) [0..<n]"
    using 0 kn by (intro nth_equalityI) auto
  then show ?case using 0 kn by simp
next
  case (Suc d)
  then have lt: "k < n" by simp
  let ?v = "scale_value (heap s (n_freq_ref s) ! k) (row_min (perm ! k)) (row_max (perm ! k))"
  let ?s2 = "s\<lparr>heap := (heap s)(1 := (heap s 1)[k := ?v]), n_freq_ref := 1\<rparr>"
  have rd: "heap s (n_freq_ref s) ! k = nf ! k"
    using Suc.prems lt by auto
  have len: "length (heap s (n_freq_ref s)) = n"
    using Suc.prems by auto
  have step: "scaling_loop perm [k..<n] s = scaling_loop perm [Suc k..<n] ?s2"
    using lt Suc.prems len by (simp add: upt_conv_Cons Let_def)
  have "\<exists>s'. scaling_loop perm [Suc k..<n] ?s2 = Inr s'
        \<and> heap s' 1 = map (scaled_entry perm nf) [0..<n] \<and> heap s' 0 = nf
        \<and> (n_freq_ref s' = 1 \<or> (Suc k = n \<and> n_freq_ref s' = n_freq_ref ?s2))"
  proof (rule Suc.hyps(1))
    show "d = n - Suc k" using Suc.hyps(2) by simp
    show "\<forall>j<Suc k. heap ?s2 1 ! j = scaled_entry perm nf j"
      using Suc.prems lt rd by (auto simp: less_Suc_eq scaled_entry_def nth_list_update)
    show "\<forall>j. Suc k \<le> j \<and> j < n \<longrightarrow> heap ?s2 1 ! j = nf ! j"
      using Suc.prems by (auto simp: nth_list_update)
  qed (use Suc.prems lt in auto)
  then show ?case using step by auto
qed

text \<open>
  Rebinding \<open>n_freq\<close> to \<open>n_freq_scaled\<close> in the loop body changes no entry: position
  \<open>i\<close> of the shared object is read before it is written and no later iteration touches
  it. So entry \<open>i\<close> of the result is computed from the value \<open>n_freq\<close> held at \<open>i\<close> before
  the loop and from row \<open>i\<close> of the unscaled permutation matrix.
\<close>

lemma scale_n_freq_reads_before_writes:
  assumes "length perm = length n_freq"
  shows "scale_n_freq perm n_freq = Inr (map (scaled_entry perm n_freq) [0..<length n_freq])"
proof -
  let ?s1 = "\<lparr>heap = ((\<lambda>a. [])(0 := n_freq))(1 := n_freq), n_freq_ref = 0, n_freq_scaled_ref = 1\<rparr>"
  have "\<exists>s'. scaling_loop perm [0..<length n_freq] ?s1 = Inr s'
        \<and> heap s' 1 = map (scaled_entry perm n_freq) [0..<length n_freq] \<and> heap s' 0 = n_freq
        \<and> (n_freq_ref s' = 1 \<or> (0 = length n_freq \<and> n_freq_ref s' = n_freq_ref ?s1))"
    by (rule scaling_loop_inv) (use assms in auto)
  then obtain s' where s': "scaling_loop perm [0..<length n_freq] ?s1 = Inr s'"
     "heap s' 1 = map (scaled_entry perm n_freq) [0..<length n_freq]" "heap s' 0 = n_freq"
     "n_freq_ref s' = 1 \<or> (0 = length n_freq \<and> n_freq_ref s' = 0)" by auto
  have "heap s' (n_freq_ref s') = map (scaled_entry perm n_freq) [0..<length n_freq]"
    using s' by auto
  then show ?thesis using s'(1) by (simp add: scale_n_freq_def)
qed

text \<open>The minimum, the maximum and the transform on rows of finite values, in real arithmetic.\<close>

lemma dropna_Fin: "dropna (map Fin rs) = map Fin rs"
  by (simp add: dropna_def isnan_def)

lemma dropna_Fin_Cons: "dropna (Fin a # map Fin rs) = Fin a # map Fin rs"
  using dropna_Fin[of "a # rs"] by simp

lemma foldl_min_Fin:
  "foldl (\<lambda>a b. if fl_ge b a then a else b) (Fin y) (map Fin ys) = Fin (fold min ys y)"
  by (induction ys arbitrary: y) (simp_all add: min_def)

lemma foldl_max_Fin:
  "foldl (\<lambda>a b. if fl_ge a b then a else b) (Fin y) (map Fin ys) = Fin (fold max ys y)"
  by (induction ys arbitrary: y) (simp_all add: max_def)

lemma row_min_Fin: "rs \<noteq> [] \<Longrightarrow> row_min (map Fin rs) = Fin (Min (set rs))"
  by (cases rs) (simp_all add: row_min_def dropna_Fin_Cons foldl_min_Fin Min.set_eq_fold del: set_simps)

lemma row_max_Fin: "rs \<noteq> [] \<Longrightarrow> row_max (map Fin rs) = Fin (Max (set rs))"
  by (cases rs) (simp_all add: row_max_def dropna_Fin_Cons foldl_max_Fin Max.set_eq_fold del: set_simps)

lemma scale_value_Fin:
  "scale_value (Fin x) (Fin mn) (Fin mx)
     = (if mx \<noteq> mn then Fin (2 * (x - mn) / (mx - mn) - 1)
        else if x = mn then NaN else if mn < x then PInf else NInf)"
  by (simp add: scale_value_def fl_sub_def signed_inf_def)

text \<open>
  Claim C7. With scaling enabled, the observed value of every pair \<open>i\<close> that the loop
  hands on is \<open>2 * (obs[i] - min) / (max - min) - 1\<close> in real arithmetic, where \<open>obs[i]\<close>
  is the value \<open>n_freq\<close> held at \<open>i\<close> before the loop and \<open>min\<close> and \<open>max\<close> are the least
  and the greatest value of row \<open>i\<close> of the unscaled permutation matrix. The in-loop
  rebinding of \<open>n_freq\<close> changes no pair's result from this formula. The permutation
  matrix has one non-empty row per pair and all values are finite, which is what the
  source builds (every frequency has passed through \<open>fillna(0)\<close>). When all trials of a
  row are equal the division is by zero: the result is NaN when the observed value equals
  them as well, and an infinity of the sign of the difference otherwise.
\<close>

theorem scale_n_freq_is_rowwise_formula:
  assumes "length rows = length obs" and "[] \<notin> set rows"
  shows "scale_n_freq (map (map Fin) rows) (map Fin obs)
     = Inr (map (\<lambda>i. let mn = Min (set (rows ! i)); mx = Max (set (rows ! i)) in
                      if mn < mx then Fin (2 * (obs ! i - mn) / (mx - mn) - 1)
                      else if obs ! i = mn then NaN
                      else if mn < obs ! i then PInf else NInf)
                [0..<length obs])"
proof -
  have "scale_n_freq (map (map Fin) rows) (map Fin obs)
      = Inr (map (scaled_entry (map (map Fin) rows) (map Fin obs)) [0..<length (map Fin obs)])"
    by (rule scale_n_freq_reads_before_writes) (simp add: assms(1))
  moreover have "scaled_entry (map (map Fin) rows) (map Fin obs) i
      = (let mn = Min (set (rows ! i)); mx = Max (set (rows ! i)) in
                      if mn < mx then Fin (2 * (obs ! i - mn) / (mx - mn) - 1)
                      else if obs ! i = mn then NaN
                      else if mn < obs ! i then PInf else NInf)" if "i < length obs" for i
  proof -
    have ne: "rows ! i \<noteq> []" using that assms by (metis nth_mem)
    have le: "Min (set (rows ! i)) \<le> Max (set (rows ! i))"
      using ne by (simp add: Min_le_iff)
    show ?thesis
      using that assms(1) le
      by (auto simp: scaled_entry_def row_min_Fin[OF ne] row_max_Fin[OF ne] scale_value_Fin Let_def)
  qed
  ultimately show ?thesis by simp
qed

theorem scale_n_freq_is_rowwise_formula_witness:
  "scale_n_freq [[Fin 1, Fin 3], [Fin 0, Fin 4], [Fin 5, Fin 5]] [Fin 2, Fin 1, Fin 7]
     = Inr [Fin 0, Fin (- 1 / 2), PInf]"
  using scale_n_freq_is_rowwise_formula [of "[[1, 3], [0, 4], [5, 5]]" "[2, 1, 7]"]
  by (simp add: upt_rec[of 0] upt_rec[of 1] upt_rec[of 2] upt_rec[of 3])

subsection \<open>Delaunay neighbourhoods\<close>

lemma simplex_pairs_lt: "(i, j) \<in> set (simplex_pairs m) \<Longrightarrow> i < j \<and> j < m"
  by (auto simp: simplex_pairs_def)

lemma add_neighbour_no_self:
  "add_neighbour d a b = Inr d' \<Longrightarrow> a \<noteq> b \<Longrightarrow> no_self d \<Longrightarrow> no_self d' \<and> length d' = length d"
  by (auto simp: add_neighbour_def no_self_def set_add_def nth_list_update split: if_splits)

lemma add_simplex_pairs_no_self:
  "add_simplex_pairs s ps d = Inr d' \<Longrightarrow> (\<forall>(i, j) \<in> set ps. s ! i \<noteq> s ! j) \<Longrightarrow> no_self d
     \<Longrightarrow> no_self d' \<and> length d' = length d"
proof (induction s ps d rule: add_simplex_pairs.induct)
  case (1 simplex d)
  then show ?case by simp
next
  case (2 simplex i j ps d)
  from "2.prems"(1) obtain d1 d2 where
    a1: "add_neighbour d (simplex ! i) (simplex ! j) = Inr d1" and
    a2: "add_neighbour d1 (simplex ! j) (simplex ! i) = Inr d2" and
    r: "add_simplex_pairs simplex ps d2 = Inr d'"
    by (auto split: sum.splits)
  have ne: "simplex ! i \<noteq> simplex ! j" using "2.prems"(2) by auto
  have n1: "no_self d1 \<and> length d1 = length d"
    using add_neighbour_no_self[OF a1 ne "2.prems"(3)] .
  have n2: "no_self d2 \<and> length d2 = length d1"
    using add_neighbour_no_self[OF a2 ne[symmetric]] n1 by blast
  have "no_self d' \<and> length d' = length d2"
    using "2.IH"[OF a1 a2 r] "2.prems"(2) n2 by auto
  then show ?case using n1 n2 by simp
qed

lemma add_simplices_no_self:
  "add_simplices ss d = Inr d' \<Longrightarrow> (\<forall>s \<in> set ss. distinct s) \<Longrightarrow> no_self d
     \<Longrightarrow> no_self d' \<and> length d' = length d"
proof (induction ss arbitrary: d)
  case Nil
  then show ?case by simp
next
  case (Cons s ss)
  from Cons.prems(1) obtain d1 where
    a: "add_simplex_pairs s (simplex_pairs (length s)) d = Inr d1" and
    r: "add_simplices ss d1 = Inr d'"
    by (auto split: sum.splits)
  have ds: "distinct s" using Cons.prems(2) by simp
  have "\<forall>(i, j) \<in> set (simplex_pairs (length s)). s ! i \<noteq> s ! j"
  proof (clarify)
    fix i j assume m: "(i, j) \<in> set (simplex_pairs (length s))" and e: "s ! i = s ! j"
    from simplex_pairs_lt[OF m] have "i < j" "j < length s" by auto
    with ds e show False by (auto simp: nth_eq_iff_index_eq)
  qed
  from add_simplex_pairs_no_self[OF a this Cons.prems(3)]
  have n1: "no_self d1 \<and> length d1 = length d" .
  from Cons.IH[OF r] Cons.prems(2) n1 show ?case by auto
qed

lemma neighbours_dict_no_self:
  "neighbours_dict npoints simplices = Inr d \<Longrightarrow> (\<forall>s \<in> set simplices. distinct s)
     \<Longrightarrow> no_self d \<and> length d = npoints"
  using add_simplices_no_self[of simplices "replicate npoints []" d]
  by (auto simp: neighbours_dict_def no_self_def)

text \<open>
  Claim C10. With the Delaunay method no cell is its own neighbour. Every adjacency
  comes from two positions \<open>i < j\<close> of one simplex; the vertices of a simplex of a
  triangulation are distinct, so the two cells differ. Neither the padded index array
  \<open>ind\<close> nor the neighbour frame holds the cell's own index in the cell's row.
\<close>

theorem delaunay_neighbours_exclude_self:
  assumes "delaunay_neighbours npoints simplices = Inr (ind, neighbours)"
    and "\<forall>s \<in> set simplices. distinct s"
    and "c < npoints"
  shows "length neighbours = npoints \<and> Some (int c) \<notin> set (neighbours ! c) \<and> int c \<notin> set (ind ! c)"
proof -
  from assms(1) obtain d where d: "neighbours_dict npoints simplices = Inr d"
    and ind: "ind = map (\<lambda>neigh. map int neigh @ replicate (frame_width d - length neigh) (- 1)) d"
    by (auto simp: delaunay_neighbours_def Let_def split: sum.splits if_splits)
  from neighbours_dict_no_self[OF d assms(2)] have ns: "no_self d" and len: "length d = npoints" by auto
  from assms(1) d have nb: "neighbours = map (map (\<lambda>v. if v = Some (- 1) then None else v))
      (map (\<lambda>r. map Some r @ replicate (frame_width ind - length r) None) ind)"
    by (auto simp: delaunay_neighbours_def Let_def data_frame_def split: sum.splits if_splits)
  have c: "c < length d" using assms(3) len by simp
  have nc: "c \<notin> set (d ! c)" using ns c by (auto simp: no_self_def)
  have i1: "int c \<notin> set (ind ! c)" using c nc by (auto simp: ind)
  have "Some (int c) \<notin> set (neighbours ! c)"
    using c i1 by (auto simp: nb ind split: if_splits)
  moreover have "length neighbours = npoints" using len by (simp add: nb ind)
  ultimately show ?thesis using i1 by simp
qed


lemma delaunay_example:
  "delaunay_neighbours 4 [[0, 1, 2], [1, 2, 3]] =
     Inr ([[1, 2, - 1], [0, 2, 3], [0, 1, 3], [1, 2, - 1]],
          [[Some 1, Some 2, None], [Some 0, Some 2, Some 3], [Some 0, Some 1, Some 3],
           [Some 1, Some 2, None]])"
  by (simp add: delaunay_neighbours_def neighbours_dict_def simplex_pairs_def add_neighbour_def
      set_add_def frame_width_def data_frame_def upt_rec numeral_eq_Suc)

theorem delaunay_neighbours_exclude_self_witness:
  "Some (int 3) \<notin> set ([[Some 1, Some 2, None], [Some 0, Some 2, Some 3], [Some 0, Some 1, Some 3],
           [Some 1, Some 2, None]] ! 3) \<and> delaunay_neighbours 4 [[0, 1, 2], [1, 2, 3]] =
     Inr ([[1, 2, - 1], [0, 2, 3], [0, 1, 3], [1, 2, - 1]],
          [[Some 1, Some 2, None], [Some 0, Some 2, Some 3], [Some 0, Some 1, Some 3],
           [Some 1, Some 2, None]])"
  using delaunay_neighbours_exclude_self[OF delaunay_example, of 3] delaunay_example by simp

subsection \<open>Conditional normalisation in a trial\<close>

lemma set_drop_duplicates [simp]: "set (drop_duplicates xs) = set xs"
  by (simp add: drop_duplicates_def)

lemma columns_drop_duplicates:
  "sort (remdups (map f (drop_duplicates xs))) = sort (remdups (map f xs))"
proof -
  have "sorted_list_of_set (set (map f (drop_duplicates xs))) = sorted_list_of_set (set (map f xs))"
    by simp
  then show ?thesis by (simp only: sorted_list_of_set_sort_remdups)
qed

lemma pair_count_zero_iff:
  "pair_count s i j = 0 \<longleftrightarrow> (\<forall>r \<in> set s. \<not> (phenotype r = i \<and> neighbour_phenotype r = j))"
  by (auto simp: pair_count_def filter_empty_conv)

lemma pair_count_drop_duplicates_zero:
  "pair_count (drop_duplicates s) i j = 0 \<longleftrightarrow> pair_count s i j = 0"
  by (simp add: pair_count_zero_iff)

lemma ratio_entry:
  "fillna (Fin 0) (fl_div (Fin (real (pair_count s i j))) (Fin (real (pair_count (drop_duplicates s) i j))))
     = conditional_ratio s i j"
  using pair_count_drop_duplicates_zero[of s i j]
  by (auto simp: conditional_ratio_def fillna_def isnan_def signed_inf_def)

lemma conditional_stack:
  "fillna_stack_values (div_frames (groupby_size_unstack cats s) (groupby_size_unstack cats (drop_duplicates s)))
     = concat (map (\<lambda>i. map (\<lambda>j. conditional_ratio s i j) (sort (remdups (map neighbour_phenotype s)))) cats)"
  by (simp add: fillna_stack_values_def div_frames_def groupby_size_unstack_def Let_def
      columns_drop_duplicates zip_map_map zip_same_conv_map ratio_entry comp_def
      del: fl_div.simps)

text \<open>
  Claim C1, as the code has it. In a conditional trial the table is shuffled first and
  both frames are computed from the shuffled table: the denominator is the pair-count
  frame of the deduplicated shuffled table, and every entry of the trial's result is
  the pair's count divided by its deduplicated count, both in the shuffled table, and
  0 for a pair the shuffled table does not hold.
\<close>

theorem conditional_trial_denominator_is_of_shuffled_table:
  "trial_normalization_factor rng cats data seed g
     = groupby_size_unstack cats (drop_duplicates (shuffled rng data seed g))
   \<and> permutation_pval_norm rng cats data seed g
     = concat (map (\<lambda>i. map (\<lambda>j. conditional_ratio (shuffled rng data seed g) i j)
                            (sort (remdups (map neighbour_phenotype (shuffled rng data seed g)))))
                   cats)"
  by (simp add: permutation_pval_norm_def trial_normalization_factor_def Let_def conditional_stack)

lemma example_shuffled:
  "shuffled rotating_rng example_table 1 0 =
     [\<lparr>index = 0, phenotype = 0, neighbour_phenotype = 1\<rparr>,
      \<lparr>index = 0, phenotype = 0, neighbour_phenotype = 0\<rparr>,
      \<lparr>index = 1, phenotype = 1, neighbour_phenotype = 1\<rparr>]"
  by (simp add: shuffled_def rotating_rng_def example_table_def np_random_seed_def
      assign_neighbour_phenotype_def rotate1_def)

text \<open>
  The claim as stated fails: after a rotation of the neighbour column of the example
  table the trial's denominator differs from the frame of the unshuffled table.
\<close>

theorem conditional_trial_denominator_counterexample:
  "trial_normalization_factor rotating_rng [0, 1] example_table 1 0
     = \<lparr>frame_index = [0, 1], frame_columns = [0, 1],
        frame_values = [[Fin 1, Fin 1], [Fin 0, Fin 1]]\<rparr>
   \<and> claimed_trial_denominator [0, 1] example_table
     = \<lparr>frame_index = [0, 1], frame_columns = [0, 1],
        frame_values = [[Fin 0, Fin 1], [Fin 1, Fin 0]]\<rparr>
   \<and> trial_normalization_factor rotating_rng [0, 1] example_table 1 0
     \<noteq> claimed_trial_denominator [0, 1] example_table"
  unfolding trial_normalization_factor_def Let_def example_shuffled
  by (simp add: claimed_trial_denominator_def groupby_size_unstack_def drop_duplicates_def
      pair_count_def example_table_def Let_def)

theorem conditional_trial_denominator_witness:
  "permutation_pval_norm rotating_rng [0, 1] example_table 1 0 = [Fin 1, Fin 1, Fin 0, Fin 1]"
  using conditional_trial_denominator_is_of_shuffled_table[of rotating_rng "[0, 1]" example_table 1 0]
  unfolding example_shuffled
  by (simp add: conditional_ratio_def pair_count_def drop_duplicates_def)

subsection \<open>Z-scores of a pair whose trials do not vary\<close>


lemma fillna_zero_not_nan [simp]: "(NaN = fillna (Fin 0) x) = False" "(fillna (Fin 0) x = NaN) = False"
  by (auto simp: fillna_def isnan_def)


lemma norm_sf_abs_nan_iff [simp]:
  "(fl_mul (norm_sf sf (fl_abs z)) (Fin 2) = NaN) = (z = NaN)"
  "(NaN = fl_mul (norm_sf sf (fl_abs z)) (Fin 2)) = (z = NaN)"
  by (cases z; auto)+







subsection \<open>Absolute p-values under scaling\<close>


subsection \<open>Observed and trial frequencies on an image with an isolated cell\<close>

lemma isolated_table_same:
  "isolated_cell_table [0, 0, 0]
     = [\<lparr>index = 0, phenotype = 0, neighbour_phenotype = 0\<rparr>,
        \<lparr>index = 1, phenotype = 0, neighbour_phenotype = 0\<rparr>]"
  by (simp add: isolated_cell_table_def isolated_cell_neighbours_def interaction_table_def
      dropna_all_def map_phenotypes_def phenomap_def present_def upt_rec numeral_eq_Suc)

lemma isolated_table_two:
  "isolated_cell_table [0, 0, 1]
     = [\<lparr>index = 0, phenotype = 0, neighbour_phenotype = 0\<rparr>,
        \<lparr>index = 1, phenotype = 0, neighbour_phenotype = 0\<rparr>]"
  by (simp add: isolated_cell_table_def isolated_cell_neighbours_def interaction_table_def
      dropna_all_def map_phenotypes_def phenomap_def present_def upt_rec numeral_eq_Suc)

lemma isolated_radius_frame:
  "radius_neighbours 3 [[0, 1], [0, 1], [2]] = Inr isolated_cell_neighbours"
  by (simp add: isolated_cell_neighbours_def radius_neighbours_def remove_self_def data_frame_def
      frame_width_def upt_rec numeral_eq_Suc)

text \<open>
  Claim C2 does not hold of the code. Under total normalization the observed frame divides
  the pair counts by \<open>data['phenotype'].value_counts()\<close>, the number of cells of the
  phenotype in the image, while a trial divides by the number of distinct cells of the
  phenotype among the rows of the interaction table, which leaves out every cell without
  a neighbour. For three cells of one phenotype, the third isolated under the radius
  method, the observed frequency is \<open>2 / 3\<close> and the trial that leaves the neighbour
  column as it is gives \<open>2 / 2 = 1\<close>.
\<close>

theorem total_observed_differs_from_identity_trial:
  "radius_neighbours 3 [[0, 1], [0, 1], [2]] = Inr isolated_cell_neighbours
   \<and> fillna_stack_values (observed_total_frame [0] [0, 0, 0] (isolated_cell_table [0, 0, 0]))
     = [Fin (2 / 3)]
   \<and> permutation_pval identity_rng [0] (isolated_cell_table [0, 0, 0]) 7 0 = [Fin 1]"
  unfolding isolated_table_same isolated_radius_frame
  by (simp add: observed_total_frame_def permutation_pval_def shuffled_def
      identity_rng_def
      np_random_seed_def assign_neighbour_phenotype_def groupby_size_unstack_def setdiff1d_def
      assign_zero_columns_def div_rows_def fillna_stack_values_def value_counts_def
      table_cell_count_def drop_duplicates_def pair_count_def fillna_def isnan_def Let_def)

subsection \<open>Shape of the frequency frames\<close>

lemma set_setdiff1d: "set (setdiff1d a b) = set a - set b"
  by (auto simp: setdiff1d_def)

text \<open>
  Under total normalization the columns are widened by the categories that are no
  neighbour phenotype: the frame has a row and a column for every category.
\<close>

lemma total_frame_labels:
  "frame_index (observed_total_frame cats phens n) = cats
   \<and> set (frame_columns (observed_total_frame cats phens n))
       = set cats \<union> set (map neighbour_phenotype n)
   \<and> distinct (frame_columns (observed_total_frame cats phens n))"
  by (auto simp: observed_total_frame_def Let_def div_rows_def assign_zero_columns_def
      groupby_size_unstack_def set_setdiff1d setdiff1d_def)

text \<open>
  Claim C6 does not hold of the code. The conditional branch, observed and trial alike,
  does not widen the columns: they are the neighbour phenotypes that occur in the table.
  In an image with two cells of phenotype 0 next to each other and an isolated cell of
  phenotype 1, phenotype 1 is a row of the conditional frame but not a column, so the
  frame is 2 by 1 and the pairs \<open>(0, 1)\<close> and \<open>(1, 1)\<close> are missing from the result; under
  total normalization the same image gives the four pairs.
\<close>

theorem conditional_frame_not_square:
  "radius_neighbours 3 [[0, 1], [0, 1], [2]] = Inr isolated_cell_neighbours
   \<and> frame_index (observed_conditional_frame [0, 1] 0 (isolated_cell_table [0, 0, 1])) = [0, 1]
   \<and> frame_columns (observed_conditional_frame [0, 1] 0 (isolated_cell_table [0, 0, 1])) = [0]
   \<and> stack_index (observed_conditional_frame [0, 1] 0 (isolated_cell_table [0, 0, 1]))
     = [(0, 0), (1, 0)]
   \<and> fillna_stack_values (observed_conditional_frame [0, 1] 0 (isolated_cell_table [0, 0, 1]))
     = [Fin 1, Fin 0]
   \<and> permutation_pval_norm identity_rng [0, 1] (isolated_cell_table [0, 0, 1]) 7 0
     = [Fin 1, Fin 0]
   \<and> stack_index (observed_total_frame [0, 1] [0, 0, 1] (isolated_cell_table [0, 0, 1]))
     = [(0, 0), (0, 1), (1, 0), (1, 1)]"
  unfolding isolated_table_two isolated_radius_frame
  by (simp add: observed_conditional_frame_def observed_total_frame_def
      permutation_pval_norm_def stack_index_def
      trial_normalization_factor_def shuffled_def identity_rng_def
      np_random_seed_def assign_neighbour_phenotype_def groupby_size_unstack_def setdiff1d_def
      assign_zero_columns_def div_rows_def div_frames_def fillna_stack_values_def value_counts_def
      drop_duplicates_def pair_count_def fillna_def isnan_def signed_inf_def fl_lt_def Let_def)

subsection \<open>Nearest neighbours of coincident cells\<close>

text \<open>
  Claim C8 does not hold of the code. The knn branch drops column 0 of the answer of the
  ball tree, whatever it holds; the radius branch removes the cell's own index by value.
  Two cells at the same coordinates are both at distance 0 from either of them, so the
  query, which depends on the coordinates only, answers both with the same row. Whichever
  of the two comes first in that row, dropping column 0 leaves one of the two cells with
  its own index as its neighbour: cell 1 for the row \<open>[0, 1]\<close>, cell 0 for the row \<open>[1, 0]\<close>.
\<close>

theorem knn_keeps_self_among_coincident_cells:
  "is_knn_answer [(0, 0), (0, 0), (5, 5)] 2 [[0, 1], [0, 1], [2, 0]]
   \<and> knn_neighbours 3 [[0, 1], [0, 1], [2, 0]] = Inr [[Some 1], [Some 1], [Some 0]]
   \<and> is_knn_answer [(0, 0), (0, 0), (5, 5)] 2 [[1, 0], [1, 0], [2, 1]]
   \<and> knn_neighbours 3 [[1, 0], [1, 0], [2, 1]] = Inr [[Some 0], [Some 0], [Some 1]]"
  by (simp add: is_knn_answer_def is_knn_row_def sq_dist_def knn_neighbours_def data_frame_def
      frame_width_def upt_rec numeral_eq_Suc)

end
